theory Spec2Isabelle
  imports Complex_Main "HOL-Library.Word"
begin

section \<open>Bluetooth LE advertisement scan (bleak/backends/dotnet/search.py)\<close>

text \<open>
  The development embeds the advertisement decoder (\<open>Advertisement.__init__\<close>,
  \<open>AdvertisementReceivedEventArgs.__init__\<close>), the filter normalisation at the top of
  \<open>find\<close>, the callback \<open>advertisement_watcher__received\<close> and the consumer loop of
  \<open>find\<close>. Python exceptions are values of \<open>py_error\<close>; a function that can raise
  returns \<open>py_error + 'a\<close> with \<open>Inl\<close> for the exception.
\<close>

datatype py_error = ValueError | AttributeError | TypeError

type_synonym byte = "8 word"

type_synonym bytes = "byte list"

subsection \<open>Enumerations\<close>

datatype GAPDataType =
    Flags
  | Incomplete_List_of_16bit_Service_Class_UUIDs
  | Complete_List_of_16bit_Service_Class_UUIDs
  | Incomplete_List_of_32bit_Service_Class_UUIDs
  | Complete_List_of_32bit_Service_Class_UUIDs
  | Incomplete_List_of_128bit_Service_Class_UUIDs
  | Complete_List_of_128bit_Service_Class_UUIDs
  | Shortened_Local_Name
  | Complete_Local_Name
  | Tx_Power_Level
  | Class_of_Device
  | Simple_Pairing_Hash_C192
  | Simple_Pairing_Randomizer_R192
  | Device_ID_or_Security_Manager_TK_Value
  | Security_Manager_Out_of_Band_Flags
  | Slave_Connection_Interval_Range
  | List_of_16bit_Service_Solicitation_UUIDs
  | List_of_128bit_Service_Solicitation_UUIDs
  | Service_Data_16bit_UUID
  | Public_Target_Address
  | Random_Target_Address
  | Appearance
  | Advertising_Interval
  | LE_Bluetooth_Device_Address
  | LE_Role
  | Simple_Pairing_Hash_C256
  | Simple_Pairing_Randomizer_R256
  | List_of_32bit_Service_Solicitation_UUIDs
  | Service_Data_32bit_UUID
  | Service_Data_128bit_UUID
  | LE_Secure_Connections_Confirmation_Value
  | LE_Secure_Connections_Random_Value
  | URI
  | Indoor_Positioning
  | Transport_Discovery_Data
  | LE_Supported_Features
  | Channel_Map_Update_Indication
  | PB_ADV
  | Mesh_Message
  | Mesh_Beacon
  | Information_Data_3D
  | Manufacturer_Specific_Data

text \<open>The members of the \<open>IntEnum\<close> with their values, in the order of the class body.\<close>

definition GAPDataType_members :: "(nat \<times> GAPDataType) list" where
  "GAPDataType_members =
    [(0x01, Flags),
     (0x02, Incomplete_List_of_16bit_Service_Class_UUIDs),
     (0x03, Complete_List_of_16bit_Service_Class_UUIDs),
     (0x04, Incomplete_List_of_32bit_Service_Class_UUIDs),
     (0x05, Complete_List_of_32bit_Service_Class_UUIDs),
     (0x06, Incomplete_List_of_128bit_Service_Class_UUIDs),
     (0x07, Complete_List_of_128bit_Service_Class_UUIDs),
     (0x08, Shortened_Local_Name),
     (0x09, Complete_Local_Name),
     (0x0A, Tx_Power_Level),
     (0x0D, Class_of_Device),
     (0x0E, Simple_Pairing_Hash_C192),
     (0x0F, Simple_Pairing_Randomizer_R192),
     (0x10, Device_ID_or_Security_Manager_TK_Value),
     (0x11, Security_Manager_Out_of_Band_Flags),
     (0x12, Slave_Connection_Interval_Range),
     (0x14, List_of_16bit_Service_Solicitation_UUIDs),
     (0x15, List_of_128bit_Service_Solicitation_UUIDs),
     (0x16, Service_Data_16bit_UUID),
     (0x17, Public_Target_Address),
     (0x18, Random_Target_Address),
     (0x19, Appearance),
     (0x1A, Advertising_Interval),
     (0x1B, LE_Bluetooth_Device_Address),
     (0x1C, LE_Role),
     (0x1D, Simple_Pairing_Hash_C256),
     (0x1E, Simple_Pairing_Randomizer_R256),
     (0x1F, List_of_32bit_Service_Solicitation_UUIDs),
     (0x20, Service_Data_32bit_UUID),
     (0x21, Service_Data_128bit_UUID),
     (0x22, LE_Secure_Connections_Confirmation_Value),
     (0x23, LE_Secure_Connections_Random_Value),
     (0x24, URI),
     (0x25, Indoor_Positioning),
     (0x26, Transport_Discovery_Data),
     (0x27, LE_Supported_Features),
     (0x28, Channel_Map_Update_Indication),
     (0x29, PB_ADV),
     (0x2A, Mesh_Message),
     (0x2B, Mesh_Beacon),
     (0x3D, Information_Data_3D),
     (0xFF, Manufacturer_Specific_Data)]"

text \<open>
  \<open>GAPDataType(v)\<close>: calling an \<open>IntEnum\<close> class looks the member up by value and raises
  \<open>ValueError\<close> when no member has that value.
\<close>

definition GAPDataType_call :: "nat \<Rightarrow> py_error + GAPDataType" where
  "GAPDataType_call v =
    (case map_of GAPDataType_members v of
       None \<Rightarrow> Inl ValueError
     | Some t \<Rightarrow> Inr t)"

datatype AdvertisementType =
    CONNECTABLE_DIRECTED
  | CONNECTABLE_UNDIRECTED
  | NON_CONNECTABLE_UNDIRECTED
  | SCANNABLE_UNDIRECTED
  | SCAN_RESPONSE

definition AdvertisementType_members :: "(nat \<times> AdvertisementType) list" where
  "AdvertisementType_members =
    [(1, CONNECTABLE_DIRECTED),
     (0, CONNECTABLE_UNDIRECTED),
     (3, NON_CONNECTABLE_UNDIRECTED),
     (2, SCANNABLE_UNDIRECTED),
     (4, SCAN_RESPONSE)]"

definition AdvertisementType_call :: "nat \<Rightarrow> py_error + AdvertisementType" where
  "AdvertisementType_call v =
    (case map_of AdvertisementType_members v of
       None \<Rightarrow> Inl ValueError
     | Some t \<Rightarrow> Inr t)"

datatype AdvertisementWatcherStatus = Aborted | Created | Started | Stopped | Stopping

subsection \<open>Platform objects handed to the decoder\<close>

text \<open>
  The .NET objects come from the platform, not from this repository; they are the inputs
  of the decoder. A record holds the properties the Python code reads:
  \<open>BluetoothLEAdvertisementDataSection\<close> (\<open>DataType\<close>, \<open>Data\<close>),
  \<open>BluetoothLEManufacturerData\<close> (\<open>CompanyId\<close>, \<open>Data\<close>, here \<open>MData\<close>),
  \<open>BluetoothLEAdvertisement\<close> (\<open>DataSections\<close>, \<open>Flags\<close>, here \<open>AdvFlags\<close>, a nullable
  value, \<open>LocalName\<close>, \<open>ManufacturerData\<close>, \<open>ServiceUuids\<close>, each already in the string
  form \<open>ToString()\<close> gives).
\<close>

record BluetoothLEAdvertisementDataSection =
  DataType :: nat
  Data :: bytes

record BluetoothLEManufacturerData =
  CompanyId :: nat
  MData :: bytes

record BluetoothLEAdvertisement =
  DataSections :: "BluetoothLEAdvertisementDataSection list"
  AdvFlags :: "nat option"
  LocalName :: string
  ManufacturerData :: "BluetoothLEManufacturerData list"
  ServiceUuids :: "string list"

subsection \<open>The decoded advertisement\<close>

record DataSection =
  data :: bytes
  data_type :: GAPDataType

record ManufacturerData_py =
  company_id :: nat
  md_data :: bytes

record Advertisement =
  data_sections :: "DataSection list"
  flags :: "nat option"
  local_name :: string
  manufacturer_data :: "ManufacturerData_py list"
  services :: "string list"
  appearance :: "int option"
  tx_power_level :: "int option"

text \<open>\<open>DataSection.__init__\<close>: the type code goes through the enumeration, the payload is copied.\<close>

definition DataSection_init :: "BluetoothLEAdvertisementDataSection \<Rightarrow> py_error + DataSection" where
  "DataSection_init ds =
    (case GAPDataType_call (DataType ds) of
       Inl e \<Rightarrow> Inl e
     | Inr t \<Rightarrow> Inr \<lparr>data = Data ds, data_type = t\<rparr>)"

text \<open>
  The list comprehension \<open>[self.DataSection(ds) for ds in args.DataSections]\<close>: the first
  section whose constructor raises ends the comprehension with that exception.
\<close>

fun DataSection_list :: "BluetoothLEAdvertisementDataSection list \<Rightarrow> py_error + DataSection list" where
  "DataSection_list [] = Inr []"
| "DataSection_list (ds # rest) =
    (case DataSection_init ds of
       Inl e \<Rightarrow> Inl e
     | Inr d \<Rightarrow>
        (case DataSection_list rest of
           Inl e \<Rightarrow> Inl e
         | Inr dl \<Rightarrow> Inr (d # dl)))"

definition ManufacturerData_init :: "BluetoothLEManufacturerData \<Rightarrow> ManufacturerData_py" where
  "ManufacturerData_init md = \<lparr>company_id = CompanyId md, md_data = MData md\<rparr>"

text \<open>\<open>int.from_bytes(b, 'big')\<close>, with the default \<open>signed=False\<close>.\<close>

definition int_from_bytes_big :: "bytes \<Rightarrow> int" where
  "int_from_bytes_big b = foldl (\<lambda>acc x. acc * 256 + uint x) 0 b"

text \<open>One pass of the loop \<open>for ds in self.data_sections\<close> over a section.\<close>

definition parse_known_section :: "Advertisement \<Rightarrow> DataSection \<Rightarrow> Advertisement" where
  "parse_known_section a ds =
    (if data_type ds = Appearance then a\<lparr>appearance := Some (int_from_bytes_big (data ds))\<rparr>
     else if data_type ds = Tx_Power_Level then a\<lparr>tx_power_level := Some (int_from_bytes_big (data ds))\<rparr>
     else a)"

definition parse_known_sections :: "Advertisement \<Rightarrow> DataSection list \<Rightarrow> Advertisement" where
  "parse_known_sections a dss = foldl parse_known_section a dss"

text \<open>
  \<open>Advertisement.__init__\<close>. \<open>self.Flags(args.Flags) if args.Flags else None\<close>: both a null
  value and the value 0 are falsy.
\<close>

definition Advertisement_init :: "BluetoothLEAdvertisement \<Rightarrow> py_error + Advertisement" where
  "Advertisement_init args =
    (case DataSection_list (DataSections args) of
       Inl e \<Rightarrow> Inl e
     | Inr dss \<Rightarrow>
        Inr (parse_known_sections
          \<lparr>data_sections = dss,
           flags = (case AdvFlags args of
                      None \<Rightarrow> None
                    | Some f \<Rightarrow> if f \<noteq> 0 then Some f else None),
           local_name = LocalName args,
           manufacturer_data = map ManufacturerData_init (ManufacturerData args),
           services = ServiceUuids args,
           appearance = None,
           tx_power_level = None\<rparr>
          dss))"

subsection \<open>Strings\<close>

text \<open>
  The strings that the decoder builds or compares (the hexadecimal form of an address,
  names, UUIDs) are values of \<^typ>\<open>string\<close>. \<open>upper_char\<close> is \<open>str.upper()\<close> on the
  characters that \<open>"{:012x}".format\<close> produces, the digits and the letters \<open>a\<close> to \<open>f\<close>.
  The text that the caller of \<open>find\<close> gives as MAC filter is any Python \<open>str\<close>; it is
  modelled further down as a list of code points.
\<close>

definition upper_char :: "char \<Rightarrow> char" where
  "upper_char c =
    (if c \<in> set ''abcdefghijklmnopqrstuvwxyz'' then char_of (of_char c - (32::nat)) else c)"

definition str_upper :: "string \<Rightarrow> string" where
  "str_upper s = map upper_char s"

text \<open>\<open>sep.join(parts)\<close>.\<close>

fun str_join :: "'a list \<Rightarrow> 'a list list \<Rightarrow> 'a list" where
  "str_join sep [] = []"
| "str_join sep [p] = p"
| "str_join sep (p # q # ps) = p @ sep @ str_join sep (q # ps)"

text \<open>\<open>range(0, n, 2)\<close>.\<close>

definition range_step2 :: "nat \<Rightarrow> nat list" where
  "range_step2 n = map (\<lambda>k. 2 * k) [0..<(n + 1) div 2]"

text \<open>
  \<open>":".join(mac_str[i:i + 2] for i in range(0, len(mac_str), 2))\<close> in
  \<open>AdvertisementReceivedEventArgs.__init__\<close>.
\<close>

definition join_byte_pairs :: "string \<Rightarrow> string" where
  "join_byte_pairs m =
    str_join '':'' (map (\<lambda>i. take 2 (drop i m)) (range_step2 (length m)))"

text \<open>\<open>format(n, 'x')\<close> and \<open>"{:012x}".format(n)\<close>.\<close>

definition hex_digit :: "nat \<Rightarrow> char" where
  "hex_digit d = ''0123456789abcdef'' ! d"

fun format_x :: "nat \<Rightarrow> string" where
  "format_x n = (if n < 16 then [hex_digit n] else format_x (n div 16) @ [hex_digit (n mod 16)])"

declare format_x.simps [simp del]

definition format_012x :: "nat \<Rightarrow> string" where
  "format_012x n = replicate (12 - length (format_x n)) (CHR ''0'') @ format_x n"

subsection \<open>Filters\<close>

text \<open>
  \<open>re.Pattern\<close> belongs to the Python standard library: a compiled pattern is given by
  what its \<open>match\<close> method decides for each string. A filter value of type
  \<open>Union[str, Pattern]\<close> is a \<open>str_or_pattern\<close>, \<open>None\<close> is the \<open>None\<close> of \<open>option\<close>.
\<close>

datatype Pattern = Pattern "string \<Rightarrow> bool"

fun pattern_match :: "Pattern \<Rightarrow> string \<Rightarrow> bool" where
  "pattern_match (Pattern f) s = f s"

datatype str_or_pattern = Str string | Pat Pattern

text \<open>Truth value of \<open>if mac:\<close> and \<open>if name:\<close>: \<open>None\<close> and the empty string are falsy.\<close>

fun truthy :: "str_or_pattern option \<Rightarrow> bool" where
  "truthy None = False"
| "truthy (Some (Str s)) = (s \<noteq> [])"
| "truthy (Some (Pat p)) = True"

subsection \<open>The region "Check filters" of \<open>find\<close>\<close>

text \<open>
  A Python \<open>str\<close> is a sequence of Unicode code points: \<open>py_str\<close>. Two tables of the
  Unicode database of the Python runtime decide what \<open>str.upper()\<close> and the class \<open>\d\<close> of
  a regular expression do to a code point outside ASCII: its upper-case mapping (one or
  more code points) and whether it is a decimal digit (category Nd). The database is not
  part of the repository; it is the parameter \<open>db\<close>. On ASCII both are fixed: \<open>a\<close> to \<open>z\<close>
  become \<open>A\<close> to \<open>Z\<close>, and the decimal digits are \<open>0\<close> to \<open>9\<close>.
\<close>

type_synonym py_str = "nat list"

record unicode_db =
  db_upper :: "nat \<Rightarrow> nat list"
  db_decimal :: "nat \<Rightarrow> bool"

text \<open>The code points of a string of ASCII characters.\<close>

definition ascii :: "string \<Rightarrow> py_str" where
  "ascii s = map of_char s"

text \<open>\<open>str.upper()\<close>; \<open>0x61\<close> to \<open>0x7A\<close> are \<open>a\<close> to \<open>z\<close>.\<close>

definition upper_code_point :: "unicode_db \<Rightarrow> nat \<Rightarrow> nat list" where
  "upper_code_point db c =
    (if c < 0x80 then (if 0x61 \<le> c \<and> c \<le> 0x7A then [c - 0x20] else [c])
     else db_upper db c)"

definition py_upper :: "unicode_db \<Rightarrow> py_str \<Rightarrow> py_str" where
  "py_upper db s = concat (map (upper_code_point db) s)"

text \<open>The class \<open>\d\<close> of a pattern over \<open>str\<close>; \<open>0x30\<close> to \<open>0x39\<close> are \<open>0\<close> to \<open>9\<close>.\<close>

definition re_digit :: "unicode_db \<Rightarrow> nat \<Rightarrow> bool" where
  "re_digit db c = (if c < 0x80 then 0x30 \<le> c \<and> c \<le> 0x39 else db_decimal db c)"

text \<open>
  \<open>re.sub(r"[^A-F\d]", "", s)\<close>: every character outside the class is deleted; \<open>0x41\<close> to
  \<open>0x46\<close> are \<open>A\<close> to \<open>F\<close>.
\<close>

definition re_sub_non_hex :: "unicode_db \<Rightarrow> py_str \<Rightarrow> py_str" where
  "re_sub_non_hex db s = filter (\<lambda>c. (0x41 \<le> c \<and> c \<le> 0x46) \<or> re_digit db c) s"

text \<open>\<open>":".join(mac[i:i + 2] for i in range(0, len(mac), 2))\<close>; \<open>0x3A\<close> is the colon.\<close>

definition join_mac_pairs :: "py_str \<Rightarrow> py_str" where
  "join_mac_pairs m =
    str_join [0x3A] (map (\<lambda>i. take 2 (drop i m)) (range_step2 (length m)))"

text \<open>The two assignments to \<open>mac\<close> under \<open>if isinstance(mac, str)\<close>.\<close>

definition normalize_mac :: "unicode_db \<Rightarrow> py_str \<Rightarrow> py_str" where
  "normalize_mac db m = join_mac_pairs (re_sub_non_hex db (py_upper db m))"

text \<open>
  What the caller can pass as \<open>mac\<close> or \<open>name\<close>: \<open>None\<close>, a \<open>str\<close>, a compiled pattern, or
  a value of any other type, of which only the truth value matters.
\<close>

datatype py_value = PyNone | PyStr py_str | PyPattern Pattern | PyOther bool

fun truth :: "py_value \<Rightarrow> bool" where
  "truth PyNone = False"
| "truth (PyStr s) = (s \<noteq> [])"
| "truth (PyPattern p) = True"
| "truth (PyOther b) = b"

text \<open>The block \<open>if mac:\<close> of the region; the result is the new value of \<open>mac\<close>.\<close>

definition check_mac :: "unicode_db \<Rightarrow> py_value \<Rightarrow> py_error + py_value" where
  "check_mac db mac =
    (if truth mac then
       (case mac of
          PyStr m \<Rightarrow> Inr (PyStr (normalize_mac db m))
        | PyPattern p \<Rightarrow> Inr mac
        | _ \<Rightarrow> Inl TypeError)
     else Inr mac)"

text \<open>\<open>if name and not isinstance(name, (str, Pattern)): raise TypeError\<close>.\<close>

definition check_name :: "py_value \<Rightarrow> py_error + py_value" where
  "check_name nm =
    (if truth nm \<and> \<not> (case nm of PyStr n \<Rightarrow> True | PyPattern p \<Rightarrow> True | _ \<Rightarrow> False)
     then Inl TypeError else Inr nm)"

text \<open>
  The loop over \<open>services\<close> in the same region. \<open>ble_uuid_to_128bit\<close> is imported from
  \<open>bleak.uuids\<close>, which is not among the sources: it is the parameter \<open>u2b\<close>.
\<close>

definition check_service :: "(str_or_pattern \<Rightarrow> py_error + string) \<Rightarrow> str_or_pattern \<Rightarrow> py_error + str_or_pattern" where
  "check_service u2b service =
    (case u2b service of
       Inr u \<Rightarrow> Inr (Str u)
     | Inl e \<Rightarrow>
        (if e = TypeError then
           (case service of
              Pat p \<Rightarrow> Inr service
            | Str _ \<Rightarrow> Inl TypeError)
         else Inl e))"

fun check_services :: "(str_or_pattern \<Rightarrow> py_error + string) \<Rightarrow> str_or_pattern list \<Rightarrow> py_error + str_or_pattern list" where
  "check_services u2b [] = Inr []"
| "check_services u2b (service # rest) =
    (case check_service u2b service of
       Inl e \<Rightarrow> Inl e
     | Inr s \<Rightarrow>
        (case check_services u2b rest of
           Inl e \<Rightarrow> Inl e
         | Inr ss \<Rightarrow> Inr (s # ss)))"

text \<open>
  The whole region: the first \<open>TypeError\<close> ends \<open>find\<close> before the watcher is created;
  otherwise the three values are the filters that the callback reads.
\<close>

definition check_filters ::
  "unicode_db \<Rightarrow> (str_or_pattern \<Rightarrow> py_error + string) \<Rightarrow> py_value \<Rightarrow> py_value \<Rightarrow>
   str_or_pattern list option \<Rightarrow> py_error + py_value \<times> py_value \<times> str_or_pattern list option" where
  "check_filters db u2b mac nm svcs =
    (case check_mac db mac of
       Inl e \<Rightarrow> Inl e
     | Inr mac' \<Rightarrow>
        (case check_name nm of
           Inl e \<Rightarrow> Inl e
         | Inr nm' \<Rightarrow>
            (case svcs of
               None \<Rightarrow> Inr (mac', nm', None)
             | Some l \<Rightarrow>
                (case check_services u2b l of
                   Inl e \<Rightarrow> Inl e
                 | Inr l' \<Rightarrow> Inr (mac', nm', Some l')))))"

subsection \<open>The received event\<close>

record DateTimeOffset =
  Year :: int
  Month :: int
  Day :: int
  Hour :: int
  Minute :: int
  Second :: int
  Millisecond :: int
  OffsetHours :: int

record datetime =
  year :: int
  month :: int
  day :: int
  hour :: int
  minute :: int
  second :: int
  microsecond :: int
  tzinfo_hours :: int

text \<open>
  \<open>BluetoothLEAdvertisementReceivedEventArgs\<close>, the platform's event: its properties
  \<open>Advertisement\<close> and \<open>AdvertisementType\<close> are the fields \<open>RawAdvertisement\<close> and
  \<open>RawAdvertisementType\<close>.
\<close>

record BluetoothLEAdvertisementReceivedEventArgs =
  RawAdvertisement :: BluetoothLEAdvertisement
  RawAdvertisementType :: nat
  BluetoothAddress :: nat
  RawSignalStrengthInDBm :: int
  Timestamp :: DateTimeOffset

record AdvertisementReceivedEventArgs =
  advertisement :: Advertisement
  advertisement_type :: AdvertisementType
  bluetooth_address :: string
  raw_signal_strength_in_dBm :: int
  timestamp :: datetime

definition AdvertisementReceivedEventArgs_init ::
  "BluetoothLEAdvertisementReceivedEventArgs \<Rightarrow> py_error + AdvertisementReceivedEventArgs" where
  "AdvertisementReceivedEventArgs_init args =
    (case Advertisement_init (RawAdvertisement args) of
       Inl e \<Rightarrow> Inl e
     | Inr adv \<Rightarrow>
        (case AdvertisementType_call (RawAdvertisementType args) of
           Inl e \<Rightarrow> Inl e
         | Inr ty \<Rightarrow>
            (let mac_str = str_upper (format_012x (BluetoothAddress args));
                 t = Timestamp args
             in Inr \<lparr>advertisement = adv,
                     advertisement_type = ty,
                     bluetooth_address = join_byte_pairs mac_str,
                     raw_signal_strength_in_dBm = RawSignalStrengthInDBm args,
                     timestamp = \<lparr>year = Year t, month = Month t, day = Day t,
                                  hour = Hour t, minute = Minute t, second = Second t,
                                  microsecond = 1000 * Millisecond t,
                                  tzinfo_hours = OffsetHours t\<rparr>\<rparr>)))"

text \<open>\<open>BLEDevice\<close> of \<open>bleak/backends/device.py\<close>.\<close>

record BLEDevice =
  address :: string
  name :: "string option"
  details :: AdvertisementReceivedEventArgs

definition BLEDevice_init :: "string \<Rightarrow> string option \<Rightarrow> AdvertisementReceivedEventArgs \<Rightarrow> BLEDevice" where
  "BLEDevice_init a n d = \<lparr>address = a, name = n, details = d\<rparr>"

subsection \<open>The scan session of \<open>find\<close>\<close>

text \<open>
  The variables of \<open>find\<close> that its inner functions read: the three filters after the
  region "Check filters" (\<open>mac\<close>, \<open>name\<close>, \<open>services\<close>) and \<open>timeout\<close>, in seconds.
\<close>

record find_closure =
  mac_filter :: "str_or_pattern option"
  name_filter :: "str_or_pattern option"
  services_filter :: "str_or_pattern list option"
  timeout :: real

text \<open>
  How an asynchronous generator can end for its caller: by returning
  (\<open>StopAsyncIteration\<close>, the normal end of the sequence) or with an exception.
\<close>

datatype generator_end = StopAsyncIteration | Exception py_error

text \<open>
  The state of one call of \<open>find\<close>: \<open>watcher.Status\<close>, the dictionary \<open>devices\<close>, the list
  \<open>new_devices\<close>, whether \<open>loop.call_later(timeout, stop_scan)\<close> has been executed, whether
  \<open>stop_scan\<close> has run, the devices yielded so far, how the generator ended (\<open>None\<close> while
  it has not), and the exceptions raised inside the callback, which go to the platform's
  thread and not to the caller of \<open>find\<close>.
\<close>

record session =
  status :: AdvertisementWatcherStatus
  devices :: "string \<rightharpoonup> BLEDevice"
  new_devices :: "BLEDevice list"
  stop_scheduled :: bool
  stop_called :: bool
  yielded :: "BLEDevice list"
  ended :: "generator_end option"
  callback_errors :: "py_error list"

text \<open>The block \<open>if mac:\<close> of the callback; \<open>False\<close> is the early \<open>return\<close>.\<close>

definition mac_passes :: "str_or_pattern option \<Rightarrow> string \<Rightarrow> bool" where
  "mac_passes mac a =
    (if truthy mac then
       (case mac of
          Some (Str m) \<Rightarrow> \<not> (m \<noteq> a)
        | Some (Pat p) \<Rightarrow> \<not> (\<not> pattern_match p a)
        | None \<Rightarrow> True)
     else True)"

text \<open>The block \<open>if name:\<close>.\<close>

definition name_passes :: "str_or_pattern option \<Rightarrow> string \<Rightarrow> bool" where
  "name_passes nm lname =
    (if truthy nm then
       (case nm of
          Some (Str n) \<Rightarrow> \<not> (n \<noteq> lname)
        | Some (Pat p) \<Rightarrow> \<not> (\<not> pattern_match p lname)
        | None \<Rightarrow> True)
     else True)"

text \<open>\<open>isinstance(service, str) and (service not in args.advertisement.services)\<close>.\<close>

fun str_and_not_in :: "str_or_pattern \<Rightarrow> string list \<Rightarrow> bool" where
  "str_and_not_in (Str s) advs = (s \<notin> set advs)"
| "str_and_not_in (Pat p) advs = False"

text \<open>
  \<open>isinstance(name, Pattern) and (not any(name.match(ds) for ds in
  args.advertisement.services))\<close>: the condition reads the name filter \<open>name\<close>, not the
  loop variable \<open>service\<close>.
\<close>

fun name_pattern_matches_none :: "str_or_pattern option \<Rightarrow> string list \<Rightarrow> bool" where
  "name_pattern_matches_none (Some (Pat p)) advs = (\<not> list_ex (pattern_match p) advs)"
| "name_pattern_matches_none (Some (Str n)) advs = False"
| "name_pattern_matches_none None advs = False"

text \<open>
  The loop \<open>for service in services\<close>. \<open>Inr False\<close> is the early \<open>return\<close>, \<open>Inr True\<close> the
  end of the loop. Under the second condition the argument of \<open>logger.debug\<close> is an
  f-string that reads \<open>service.pattern\<close>, which a \<open>str\<close> does not have.
\<close>

fun services_loop :: "str_or_pattern option \<Rightarrow> string list \<Rightarrow> str_or_pattern list \<Rightarrow> py_error + bool" where
  "services_loop nm advs [] = Inr True"
| "services_loop nm advs (service # rest) =
    (if str_and_not_in service advs then Inr False
     else if name_pattern_matches_none nm advs then
       (case service of
          Str s \<Rightarrow> Inl AttributeError
        | Pat p \<Rightarrow> Inr False)
     else services_loop nm advs rest)"

text \<open>The block \<open>if services:\<close>; \<open>None\<close> and the empty list are falsy.\<close>

definition services_pass :: "str_or_pattern list option \<Rightarrow> str_or_pattern option \<Rightarrow> string list \<Rightarrow> py_error + bool" where
  "services_pass svcs nm advs =
    (case svcs of
       None \<Rightarrow> Inr True
     | Some l \<Rightarrow>
        (if l = [] then Inr True
         else if advs = [] then Inr False
         else services_loop nm advs l))"

text \<open>
  The callback \<open>advertisement_watcher__received\<close>. It returns \<open>None\<close> in Python; here it
  returns the session with \<open>devices\<close> and \<open>new_devices\<close> as the call leaves them.
\<close>

definition advertisement_watcher__received ::
  "find_closure \<Rightarrow> session \<Rightarrow> BluetoothLEAdvertisementReceivedEventArgs \<Rightarrow> py_error + session" where
  "advertisement_watcher__received c s raw =
    (case AdvertisementReceivedEventArgs_init raw of
       Inl e \<Rightarrow> Inl e
     | Inr args \<Rightarrow>
        (let device = BLEDevice_init (bluetooth_address args)
                        (Some (local_name (advertisement args))) args
         in if \<not> mac_passes (mac_filter c) (bluetooth_address args) then Inr s
            else if \<not> name_passes (name_filter c) (local_name (advertisement args)) then Inr s
            else
              (case services_pass (services_filter c) (name_filter c)
                      (services (advertisement args)) of
                 Inl e \<Rightarrow> Inl e
               | Inr ok \<Rightarrow>
                  (if \<not> ok then Inr s
                   else if devices s (address device) = None then
                     Inr (s\<lparr>devices := (devices s)(address device \<mapsto> device),
                            new_devices := new_devices s @ [device]\<rparr>)
                   else Inr s))))"

text \<open>
  \<open>watcher.Stop()\<close>, called by \<open>stop_scan\<close>: the stop command takes a started watcher to
  \<open>Stopping\<close>; the platform reports \<open>Stopped\<close> later.
\<close>

definition watcher_Stop :: "AdvertisementWatcherStatus \<Rightarrow> AdvertisementWatcherStatus" where
  "watcher_Stop st = (if st = Started then Stopping else st)"

text \<open>
  What happens around the generator, in the order it happens: the platform calls the
  callback (\<open>Received\<close>), the platform changes the status of the watcher (\<open>Platform\<close>), or
  the generator runs from one \<open>await asyncio.sleep(0.01)\<close> to the end of the next
  (\<open>Poll t\<close>), where \<open>t\<close> is the time in seconds that the event loop's clock shows during
  that sleep, counted from the call of \<open>loop.call_later\<close>. The event loop runs a callback
  scheduled by \<open>call_later(timeout, ...)\<close> in the first sleep in which \<open>timeout \<le> t\<close>.
\<close>

datatype event =
    Received BluetoothLEAdvertisementReceivedEventArgs
  | Platform AdvertisementWatcherStatus
  | Poll real

text \<open>
  One pass of \<open>while watcher.Status in (Started, Stopping)\<close>: the test, the \<open>yield\<close> of
  \<open>new_devices.pop()\<close> (the last element of the list), and the sleep, in which
  \<open>stop_scan\<close> runs when it is due. When the test fails the generator returns.
\<close>

definition scan_iteration :: "find_closure \<Rightarrow> real \<Rightarrow> session \<Rightarrow> session" where
  "scan_iteration c t s =
    (if status s = Started \<or> status s = Stopping then
       (let s1 = (if new_devices s \<noteq> [] then
                    s\<lparr>yielded := yielded s @ [last (new_devices s)],
                      new_devices := butlast (new_devices s)\<rparr>
                  else s)
        in if \<not> stop_called s1 \<and> timeout c \<le> t then
             s1\<lparr>stop_called := True, status := watcher_Stop (status s1)\<rparr>
           else s1)
     else s\<lparr>ended := Some StopAsyncIteration\<rparr>)"

fun step :: "find_closure \<Rightarrow> session \<Rightarrow> event \<Rightarrow> session" where
  "step c s (Received raw) =
    (case advertisement_watcher__received c s raw of
       Inl e \<Rightarrow> s\<lparr>callback_errors := callback_errors s @ [e]\<rparr>
     | Inr s' \<Rightarrow> s')"
| "step c s (Platform st) = s\<lparr>status := st\<rparr>"
| "step c s (Poll t) =
    (if ended s \<noteq> None then s
     else if \<not> stop_scheduled s then
       (if status s = Created then s
        else scan_iteration c t (s\<lparr>stop_scheduled := True\<rparr>))
     else scan_iteration c t s)"

text \<open>The session when \<open>watcher.Start()\<close> has just been called.\<close>

definition find_start :: session where
  "find_start =
    \<lparr>status = Created, devices = Map.empty, new_devices = [],
     stop_scheduled = False, stop_called = False, yielded = [],
     ended = None, callback_errors = []\<rparr>"

definition run :: "find_closure \<Rightarrow> session \<Rightarrow> event list \<Rightarrow> session" where
  "run c s evs = foldl (step c) s evs"

text \<open>
  \<open>find\<close> from \<open>watcher.Start()\<close> on, on a sequence of events, for filters that the region
  "Check filters" has let through. In this sequence every call of the callback runs from
  its first statement to its last before anything else happens.
\<close>

definition find :: "find_closure \<Rightarrow> event list \<Rightarrow> session" where
  "find c evs = run c find_start evs"

text \<open>
  How \<open>find\<close> ends in the region "Check filters": when the region raises, the exception
  reaches the caller at the first item it asks for, before \<open>watcher.Start()\<close>; \<open>None\<close> when
  the region lets the filters through and the session above begins.
\<close>

definition find_region_end ::
  "unicode_db \<Rightarrow> (str_or_pattern \<Rightarrow> py_error + string) \<Rightarrow> py_value \<Rightarrow> py_value \<Rightarrow>
   str_or_pattern list option \<Rightarrow> generator_end option" where
  "find_region_end db u2b mac nm svcs =
    (case check_filters db u2b mac nm svcs of
       Inl e \<Rightarrow> Some (Exception e)
     | Inr checked \<Rightarrow> None)"

subsection \<open>Calls of the callback on several threads\<close>

text \<open>
  The comment above \<open>devices\<close> in \<open>find\<close> says that the callbacks are executed on several
  worker threads. The callback tests \<open>device.address not in devices\<close> and stores afterwards,
  with no lock in between, so another thread can run between the test and the store.
  \<open>received_test\<close> is the callback up to the test: \<open>Some device\<close> when the event passes
  the filters and its address is no key of \<open>devices\<close>, \<open>None\<close> when the callback returns
  without storing. \<open>received_store\<close> is the body of the \<open>if\<close>.
\<close>

definition received_test ::
  "find_closure \<Rightarrow> session \<Rightarrow> BluetoothLEAdvertisementReceivedEventArgs \<Rightarrow> py_error + BLEDevice option" where
  "received_test c s raw =
    (case AdvertisementReceivedEventArgs_init raw of
       Inl e \<Rightarrow> Inl e
     | Inr args \<Rightarrow>
        (let device = BLEDevice_init (bluetooth_address args)
                        (Some (local_name (advertisement args))) args
         in if \<not> mac_passes (mac_filter c) (bluetooth_address args) then Inr None
            else if \<not> name_passes (name_filter c) (local_name (advertisement args)) then Inr None
            else
              (case services_pass (services_filter c) (name_filter c)
                      (services (advertisement args)) of
                 Inl e \<Rightarrow> Inl e
               | Inr ok \<Rightarrow>
                  (if \<not> ok then Inr None
                   else if devices s (address device) = None then Inr (Some device)
                   else Inr None))))"

definition received_store :: "session \<Rightarrow> BLEDevice \<Rightarrow> session" where
  "received_store s device =
    s\<lparr>devices := (devices s)(address device \<mapsto> device),
      new_devices := new_devices s @ [device]\<rparr>"

text \<open>
  The events of a session in which calls of the callback overlap: the worker thread \<open>n\<close>
  runs the callback on an event up to the test (\<open>Test n\<close>), the worker thread \<open>n\<close> runs the
  body of the \<open>if\<close> that it has reached (\<open>Store n\<close>), or one of the events above happens
  (\<open>Whole\<close>). The second component of the state holds, for each thread between its test
  and its store, the device it is about to store.
\<close>

datatype thread_event =
    Test nat BluetoothLEAdvertisementReceivedEventArgs
  | Store nat
  | Whole event

fun step_threads ::
  "find_closure \<Rightarrow> session \<times> (nat \<rightharpoonup> BLEDevice) \<Rightarrow> thread_event \<Rightarrow> session \<times> (nat \<rightharpoonup> BLEDevice)" where
  "step_threads c (s, w) (Test n raw) =
    (case received_test c s raw of
       Inl e \<Rightarrow> (s\<lparr>callback_errors := callback_errors s @ [e]\<rparr>, w)
     | Inr None \<Rightarrow> (s, w)
     | Inr (Some device) \<Rightarrow> (s, w(n \<mapsto> device)))"
| "step_threads c (s, w) (Store n) =
    (case w n of
       None \<Rightarrow> (s, w)
     | Some device \<Rightarrow> (received_store s device, w(n := None)))"
| "step_threads c (s, w) (Whole ev) = (step c s ev, w)"

definition find_threads :: "find_closure \<Rightarrow> thread_event list \<Rightarrow> session" where
  "find_threads c tevs = fst (foldl (step_threads c) (find_start, Map.empty) tevs)"

subsection \<open>The specification's reading of the filters\<close>

text \<open>
  The services filter as the specification words it: an entry is matched by an advertised
  UUID when it is that very string or a pattern matching it, and the filter holds when
  every entry is matched by some advertised UUID.
\<close>

fun entry_matches :: "str_or_pattern \<Rightarrow> string \<Rightarrow> bool" where
  "entry_matches (Str s) u = (s = u)"
| "entry_matches (Pat p) u = pattern_match p u"

definition services_filter_spec :: "str_or_pattern list \<Rightarrow> string list \<Rightarrow> bool" where
  "services_filter_spec entries advs = list_all (\<lambda>e. list_ex (entry_matches e) advs) entries"

text \<open>
  The normal form of a MAC address as the specification words it: upper case, the
  characters that are not hexadecimal digits (\<open>0\<close> to \<open>9\<close>, \<open>A\<close> to \<open>F\<close>) removed, the
  rest cut into pairs from the left and the pairs joined with colons.
\<close>

fun byte_pairs :: "'a list \<Rightarrow> 'a list list" where
  "byte_pairs [] = []"
| "byte_pairs [a] = [[a]]"
| "byte_pairs (a # b # rest) = [a, b] # byte_pairs rest"

definition is_upper_hex_digit :: "nat \<Rightarrow> bool" where
  "is_upper_hex_digit c = ((0x30 \<le> c \<and> c \<le> 0x39) \<or> (0x41 \<le> c \<and> c \<le> 0x46))"

definition mac_canonical_spec :: "unicode_db \<Rightarrow> py_str \<Rightarrow> py_str" where
  "mac_canonical_spec db m =
    str_join [0x3A] (byte_pairs (filter is_upper_hex_digit (py_upper db m)))"

subsection \<open>Concrete inputs\<close>

definition adv_unknown_code :: BluetoothLEAdvertisement where
  "adv_unknown_code =
    \<lparr>DataSections = [\<lparr>DataType = 0x0B, Data = [0x01]\<rparr>, \<lparr>DataType = 0x0A, Data = [0x04]\<rparr>],
     AdvFlags = None, LocalName = ''x'', ManufacturerData = [], ServiceUuids = []\<rparr>"

definition adv_repeated :: BluetoothLEAdvertisement where
  "adv_repeated =
    \<lparr>DataSections =
       [\<lparr>DataType = 0x19, Data = [0x00, 0x01]\<rparr>, \<lparr>DataType = 0x0A, Data = [0x04]\<rparr>,
        \<lparr>DataType = 0x19, Data = [0x00, 0x02]\<rparr>, \<lparr>DataType = 0x0A, Data = [0x08]\<rparr>],
     AdvFlags = Some 6, LocalName = ''x'', ManufacturerData = [], ServiceUuids = []\<rparr>"

definition adv_tx_F0 :: BluetoothLEAdvertisement where
  "adv_tx_F0 =
    \<lparr>DataSections = [\<lparr>DataType = 0x0A, Data = [0xF0]\<rparr>, \<lparr>DataType = 0x19, Data = [0x03, 0xC1]\<rparr>],
     AdvFlags = Some 6, LocalName = ''x'', ManufacturerData = [], ServiceUuids = []\<rparr>"



text \<open>
  A Unicode database cut down to what the inputs below need: the Arabic-Indic digits
  \<open>U+0660\<close> to \<open>U+0669\<close> are decimal digits and have no upper-case mapping of their own.
\<close>

definition db_arabic_indic :: unicode_db where
  "db_arabic_indic =
    \<lparr>db_upper = (\<lambda>c. [c]), db_decimal = (\<lambda>c. 0x660 \<le> c \<and> c \<le> 0x669)\<rparr>"

definition raw_event :: "nat \<Rightarrow> string \<Rightarrow> string list \<Rightarrow> BluetoothLEAdvertisementReceivedEventArgs" where
  "raw_event a n us =
    \<lparr>RawAdvertisement =
       \<lparr>DataSections = [\<lparr>DataType = 0x01, Data = [0x06]\<rparr>],
        AdvFlags = Some 6, LocalName = n, ManufacturerData = [], ServiceUuids = us\<rparr>,
     RawAdvertisementType = 0,
     BluetoothAddress = a,
     RawSignalStrengthInDBm = - 60,
     Timestamp = \<lparr>Year = 2019, Month = 3, Day = 26, Hour = 12, Minute = 0, Second = 0,
                  Millisecond = 500, OffsetHours = 1\<rparr>\<rparr>"

definition ev_A :: BluetoothLEAdvertisementReceivedEventArgs where
  "ev_A = raw_event 0xFABD60D2113A ''Nordic_Blinky'' [''0000180a-0000-1000-8000-00805f9b34fb'']"

definition ev_A_again :: BluetoothLEAdvertisementReceivedEventArgs where
  "ev_A_again = raw_event 0xFABD60D2113A ''Renamed'' []"

definition ev_B :: BluetoothLEAdvertisementReceivedEventArgs where
  "ev_B = raw_event 0x001122334455 ''Other'' [''0000180f-0000-1000-8000-00805f9b34fb'']"

definition no_filters :: "real \<Rightarrow> find_closure" where
  "no_filters t = \<lparr>mac_filter = None, name_filter = None, services_filter = None, timeout = t\<rparr>"

definition never :: Pattern where
  "never = Pattern (\<lambda>s. False)"

definition pattern_only_services :: find_closure where
  "pattern_only_services =
    \<lparr>mac_filter = None, name_filter = None, services_filter = Some [Pat never], timeout = 5\<rparr>"

text \<open>The three events as the callback decodes them, and the devices it builds from them.\<close>

definition args_A :: AdvertisementReceivedEventArgs where
  "args_A = projr (AdvertisementReceivedEventArgs_init ev_A)"

definition args_A_again :: AdvertisementReceivedEventArgs where
  "args_A_again = projr (AdvertisementReceivedEventArgs_init ev_A_again)"

definition args_B :: AdvertisementReceivedEventArgs where
  "args_B = projr (AdvertisementReceivedEventArgs_init ev_B)"

definition dev_A :: BLEDevice where
  "dev_A = BLEDevice_init ''FA:BD:60:D2:11:3A'' (Some ''Nordic_Blinky'') args_A"

definition dev_B :: BLEDevice where
  "dev_B = BLEDevice_init ''00:11:22:33:44:55'' (Some ''Other'') args_B"

definition dev_A_again :: BLEDevice where
  "dev_A_again = BLEDevice_init ''FA:BD:60:D2:11:3A'' (Some ''Renamed'') args_A_again"

text \<open>
  What holds of \<open>devices\<close>, \<open>new_devices\<close> and the yielded devices throughout a session:
  no two of the devices queued or yielded have the same address, and each of them has its
  address in \<open>devices\<close>.
\<close>

definition queue_inv :: "session \<Rightarrow> bool" where
  "queue_inv s \<longleftrightarrow>
     distinct (map address (yielded s @ new_devices s)) \<and>
     (\<forall>d \<in> set (yielded s @ new_devices s). devices s (address d) \<noteq> None)"

section \<open>Properties of the decoder\<close>

lemma GAPDataType_call_unknown:
  "v \<notin> set (map fst GAPDataType_members) \<Longrightarrow> GAPDataType_call v = Inl ValueError"
proof -
  assume "v \<notin> set (map fst GAPDataType_members)"
  then have "map_of GAPDataType_members v = None"
    by (simp add: map_of_eq_None_iff)
  then show ?thesis by (simp add: GAPDataType_call_def)
qed

lemma DataSection_list_raises:
  "ds \<in> set dss \<Longrightarrow> DataSection_init ds = Inl e \<Longrightarrow> \<exists>e'. DataSection_list dss = Inl e'"
  by (induction dss) (auto split: sum.splits)

lemma DataSection_init_error: "DataSection_init ds = Inl e \<Longrightarrow> e = ValueError"
  by (auto simp: DataSection_init_def GAPDataType_call_def split: sum.splits option.splits)

lemma DataSection_list_error: "DataSection_list dss = Inl e \<Longrightarrow> e = ValueError"
  by (induction dss arbitrary: e) (auto split: sum.splits dest: DataSection_init_error)

lemma parse_known_sections_data_sections [simp]:
  "data_sections (parse_known_sections a dss) = data_sections a"
  unfolding parse_known_sections_def
  by (induction dss arbitrary: a) (auto simp: parse_known_section_def)

lemma parse_known_sections_flags [simp]:
  "flags (parse_known_sections a dss) = flags a"
  unfolding parse_known_sections_def
  by (induction dss arbitrary: a) (auto simp: parse_known_section_def)

lemma parse_known_sections_appearance:
  "appearance (parse_known_sections a dss) =
    (case filter (\<lambda>ds. data_type ds = Appearance) dss of
       [] \<Rightarrow> appearance a
     | xs \<Rightarrow> Some (int_from_bytes_big (data (last xs))))"
  unfolding parse_known_sections_def
  by (induction dss rule: rev_induct) (auto simp: parse_known_section_def split: list.splits)

lemma parse_known_sections_tx_power_level:
  "tx_power_level (parse_known_sections a dss) =
    (case filter (\<lambda>ds. data_type ds = Tx_Power_Level) dss of
       [] \<Rightarrow> tx_power_level a
     | xs \<Rightarrow> Some (int_from_bytes_big (data (last xs))))"
  unfolding parse_known_sections_def
  by (induction dss rule: rev_induct) (auto simp: parse_known_section_def split: list.splits)

lemmas decoder_defs =
  Advertisement_init_def DataSection_init_def GAPDataType_call_def GAPDataType_members_def
  parse_known_sections_def parse_known_section_def int_from_bytes_big_def
  ManufacturerData_init_def

text \<open>A payload of one byte is read as a number from 0 to 255.\<close>

lemma int_from_bytes_big_one_byte:
  "int_from_bytes_big [b] = uint b" "0 \<le> int_from_bytes_big [b]" "int_from_bytes_big [b] < 256"
proof -
  show "int_from_bytes_big [b] = uint b"
    by (simp add: int_from_bytes_big_def)
  then show "0 \<le> int_from_bytes_big [b]" by simp
  have "uint b < 2 ^ LENGTH(8)" by (rule uint_bounded)
  then show "int_from_bytes_big [b] < 256" by (simp add: int_from_bytes_big_def)
qed

text \<open>
  C2, as the code has it. A data section whose type code is not a value of \<open>GAPDataType\<close>
  is not kept as an opaque section: its constructor raises \<open>ValueError\<close>, and decoding an
  advertisement that contains such a section raises \<open>ValueError\<close> as a whole, so that none
  of its sections is decoded.
\<close>

theorem unknown_type_code_raises:
  assumes "DataType ds \<notin> set (map fst GAPDataType_members)"
  shows "DataSection_init ds = Inl ValueError \<and>
         (ds \<in> set (DataSections args) \<longrightarrow> Advertisement_init args = Inl ValueError)"
proof -
  have i: "DataSection_init ds = Inl ValueError"
    using assms by (simp add: DataSection_init_def GAPDataType_call_unknown)
  have "Advertisement_init args = Inl ValueError" if mem: "ds \<in> set (DataSections args)"
  proof -
    obtain e where "DataSection_list (DataSections args) = Inl e"
      using DataSection_list_raises [OF mem i] by blast
    moreover from this have "e = ValueError" by (rule DataSection_list_error)
    ultimately show ?thesis by (simp add: Advertisement_init_def)
  qed
  with i show ?thesis by blast
qed

theorem unknown_type_code_raises_witness:
  "DataType \<lparr>DataType = 0x0B, Data = [0x01]\<rparr> \<notin> set (map fst GAPDataType_members) \<and>
   DataSection_init \<lparr>DataType = 0x0B, Data = [0x01]\<rparr> = Inl ValueError \<and>
   \<lparr>DataType = 0x0B, Data = [0x01]\<rparr> \<in> set (DataSections adv_unknown_code) \<and>
   Advertisement_init adv_unknown_code = Inl ValueError"
  using unknown_type_code_raises [of "\<lparr>DataType = 0x0B, Data = [0x01]\<rparr>" adv_unknown_code]
  by (simp add: GAPDataType_members_def adv_unknown_code_def)

text \<open>
  C2 as stated fails: the type code \<open>0x0B\<close> is no value of the enumeration, and the
  advertisement whose first section has it is not decoded at all, although its second
  section (\<open>Tx_Power_Level\<close>) is well formed.
\<close>

theorem unknown_type_code_counterexample:
  "map_of GAPDataType_members 0x0B = None \<and>
   Advertisement_init adv_unknown_code = Inl ValueError"
  by (simp add: adv_unknown_code_def decoder_defs)

text \<open>
  C5, as the code has it. When several sections of type \<open>Appearance\<close> (or of type
  \<open>Tx_Power_Level\<close>) are present, the field takes its value from the last of them in
  decoding order; with no such section the field is \<open>None\<close>.
\<close>

theorem last_section_wins:
  assumes "Advertisement_init args = Inr adv"
  shows "appearance adv =
          (case filter (\<lambda>ds. data_type ds = Appearance) (data_sections adv) of
             [] \<Rightarrow> None
           | xs \<Rightarrow> Some (int_from_bytes_big (data (last xs)))) \<and>
         tx_power_level adv =
          (case filter (\<lambda>ds. data_type ds = Tx_Power_Level) (data_sections adv) of
             [] \<Rightarrow> None
           | xs \<Rightarrow> Some (int_from_bytes_big (data (last xs))))"
proof -
  obtain dss a0 where a0: "adv = parse_known_sections a0 dss" "data_sections a0 = dss"
    "appearance a0 = None" "tx_power_level a0 = None"
    using assms by (auto simp: Advertisement_init_def split: sum.splits)
  show ?thesis
    by (simp add: a0 parse_known_sections_appearance parse_known_sections_tx_power_level
        cong: list.case_cong)
qed

theorem last_section_wins_witness:
  "Advertisement_init adv_repeated = Inr (projr (Advertisement_init adv_repeated)) \<and>
   appearance (projr (Advertisement_init adv_repeated)) = Some 2 \<and>
   tx_power_level (projr (Advertisement_init adv_repeated)) = Some 8"
proof -
  have h: "Advertisement_init adv_repeated = Inr (projr (Advertisement_init adv_repeated))"
    by (simp add: adv_repeated_def decoder_defs)
  have d: "map (\<lambda>ds. (data_type ds, data ds)) (data_sections (projr (Advertisement_init adv_repeated))) =
    [(Appearance, [0x00, 0x01]), (Tx_Power_Level, [0x04]),
     (Appearance, [0x00, 0x02]), (Tx_Power_Level, [0x08])]"
    by (simp add: adv_repeated_def decoder_defs)
  from d have ds: "data_sections (projr (Advertisement_init adv_repeated)) =
    [\<lparr>data = [0x00, 0x01], data_type = Appearance\<rparr>, \<lparr>data = [0x04], data_type = Tx_Power_Level\<rparr>,
     \<lparr>data = [0x00, 0x02], data_type = Appearance\<rparr>, \<lparr>data = [0x08], data_type = Tx_Power_Level\<rparr>]"
    by (simp add: adv_repeated_def decoder_defs)
  show ?thesis
    using h last_section_wins [OF h] by (simp add: ds int_from_bytes_big_def)
qed

text \<open>
  C5 as stated fails: with the sections \<open>Appearance 0x0001\<close>, \<open>Tx_Power_Level 0x04\<close>,
  \<open>Appearance 0x0002\<close>, \<open>Tx_Power_Level 0x08\<close> in this order, the fields are 2 and 8, the
  values of the last sections, while the first sections hold 1 and 4.
\<close>

theorem first_section_wins_counterexample:
  "map_sum id (\<lambda>a. (appearance a, tx_power_level a)) (Advertisement_init adv_repeated) =
     Inr (Some 2, Some 8) \<and>
   int_from_bytes_big (Data (DataSections adv_repeated ! 0)) = 1 \<and>
   int_from_bytes_big (Data (DataSections adv_repeated ! 1)) = 4"
  by (simp add: adv_repeated_def decoder_defs)

text \<open>
  C6 at the payload \<open>0xF0\<close>: the code reads the byte of a \<open>Tx_Power_Level\<close> section
  unsigned and gives 240, where the signed 8-bit value of the byte is -16. The two bytes
  \<open>0x03 0xC1\<close> of the \<open>Appearance\<close> section give 961, big-endian.
\<close>

theorem tx_power_level_is_read_unsigned:
  "map_sum id (\<lambda>a. (tx_power_level a, appearance a)) (Advertisement_init adv_tx_F0) =
     Inr (Some 240, Some 961) \<and>
   sint (0xF0 :: byte) = - 16"
  by (simp add: adv_tx_F0_def decoder_defs)






section \<open>Properties of the filters\<close>

lemma range_step2_Suc_Suc:
  "range_step2 (Suc (Suc n)) = 0 # map (\<lambda>i. Suc (Suc i)) (range_step2 n)"
proof -
  have "[0..<(Suc (Suc n) + 1) div 2] = 0 # map Suc [0..<(n + 1) div 2]"
    by (simp add: map_Suc_upt upt_conv_Cons)
  then show ?thesis
    by (simp add: range_step2_def)
qed

lemma slices_are_byte_pairs:
  "map (\<lambda>i. take 2 (drop i m)) (range_step2 (length m)) = byte_pairs m"
proof (induction m rule: byte_pairs.induct)
  case 1
  then show ?case by (simp add: range_step2_def)
next
  case (2 a)
  then show ?case by (simp add: range_step2_def)
next
  case (3 a b rest)
  then show ?case
    by (simp add: range_step2_Suc_Suc comp_def)
qed

lemma join_mac_pairs_byte_pairs: "join_mac_pairs m = str_join [0x3A] (byte_pairs m)"
  unfolding join_mac_pairs_def slices_are_byte_pairs ..

lemma py_upper_ascii:
  assumes "\<forall>c \<in> set m. c < 0x80"
  shows "\<forall>c \<in> set (py_upper db m). c < 0x80"
  using assms by (auto simp: py_upper_def upper_code_point_def split: if_splits)

lemma re_sub_non_hex_ascii:
  assumes "\<forall>c \<in> set s. c < 0x80"
  shows "re_sub_non_hex db s = filter is_upper_hex_digit s"
  unfolding re_sub_non_hex_def
proof (rule filter_cong [OF refl])
  fix c assume "c \<in> set s"
  with assms have "c < 0x80" by simp
  then show "((0x41 \<le> c \<and> c \<le> 0x46) \<or> re_digit db c) = is_upper_hex_digit c"
    by (auto simp: re_digit_def is_upper_hex_digit_def)
qed

text \<open>
  On a string of ASCII characters, whatever the Unicode database, the code computes the
  normal form of the specification.
\<close>

lemma normalize_mac_ascii:
  assumes "\<forall>c \<in> set m. c < 0x80"
  shows "normalize_mac db m = mac_canonical_spec db m"
  unfolding normalize_mac_def mac_canonical_spec_def join_mac_pairs_byte_pairs
  by (simp add: re_sub_non_hex_ascii [OF py_upper_ascii [OF assms]])

lemma ascii_below_0x80: "\<forall>c \<in> set (ascii ''fa-bd:60d2_113a''). c < 0x80"
  by (simp add: ascii_def)

text \<open>
  C9 at the string \<open>U+0661 U+0662 : a b\<close>, two Arabic-Indic digits before \<open>:ab\<close>. The
  class \<open>[^A-F\d]\<close> is meant to delete what is no hexadecimal digit, but \<open>\d\<close> over \<open>str\<close>
  accepts the decimal digits of every script: the two digits stay, and the filter becomes
  \<open>U+0661 U+0662 : A B\<close> where the normal form of the specification is \<open>AB\<close>. The example
  of the claim, made of ASCII characters, becomes \<open>FA:BD:60:D2:11:3A\<close>.
\<close>

theorem unicode_digits_survive_mac_normalisation:
  "check_mac db_arabic_indic (PyStr [0x661, 0x662, 0x3A, 0x61, 0x62]) =
     Inr (PyStr [0x661, 0x662, 0x3A, 0x41, 0x42]) \<and>
   mac_canonical_spec db_arabic_indic [0x661, 0x662, 0x3A, 0x61, 0x62] = [0x41, 0x42] \<and>
   check_mac db_arabic_indic (PyStr (ascii ''fa-bd:60d2_113a'')) =
     Inr (PyStr (ascii ''FA:BD:60:D2:11:3A''))"
proof -
  have a: "normalize_mac db_arabic_indic [0x661, 0x662, 0x3A, 0x61, 0x62] =
      [0x661, 0x662, 0x3A, 0x41, 0x42]"
    by (simp add: normalize_mac_def join_mac_pairs_byte_pairs re_sub_non_hex_def
        re_digit_def py_upper_def upper_code_point_def db_arabic_indic_def)
  have b: "mac_canonical_spec db_arabic_indic [0x661, 0x662, 0x3A, 0x61, 0x62] = [0x41, 0x42]"
    by (simp add: mac_canonical_spec_def is_upper_hex_digit_def py_upper_def
        upper_code_point_def db_arabic_indic_def)
  have "mac_canonical_spec db_arabic_indic (ascii ''fa-bd:60d2_113a'') = ascii ''FA:BD:60:D2:11:3A''"
    by (simp add: mac_canonical_spec_def is_upper_hex_digit_def py_upper_def
        upper_code_point_def ascii_def)
  then have c: "normalize_mac db_arabic_indic (ascii ''fa-bd:60d2_113a'') = ascii ''FA:BD:60:D2:11:3A''"
    by (simp add: normalize_mac_ascii [OF ascii_below_0x80])
  have d: "ascii ''fa-bd:60d2_113a'' \<noteq> []"
    by (simp add: ascii_def)
  from a b c d show ?thesis
    by (simp add: check_mac_def)
qed

section \<open>Properties of the session\<close>

subsection \<open>The callback on the concrete events\<close>

lemma format_FABD: "str_upper (format_012x 0xFABD60D2113A) = ''FABD60D2113A''"
proof -
  have "format_012x 0xFABD60D2113A = ''fabd60d2113a''"
    by (simp add: format_012x_def format_x.simps hex_digit_def)
  moreover have "str_upper ''fabd60d2113a'' = ''FABD60D2113A''"
    by code_simp
  ultimately show ?thesis by simp
qed

lemma format_0011: "str_upper (format_012x 0x001122334455) = ''001122334455''"
proof -
  have "format_012x 0x001122334455 = ''001122334455''"
    by (simp add: format_012x_def format_x.simps hex_digit_def numeral_2_eq_2)
  moreover have "str_upper ''001122334455'' = ''001122334455''"
    by code_simp
  ultimately show ?thesis by simp
qed

lemma join_FABD: "join_byte_pairs ''FABD60D2113A'' = ''FA:BD:60:D2:11:3A''"
  by code_simp

lemma join_0011: "join_byte_pairs ''001122334455'' = ''00:11:22:33:44:55''"
  by code_simp

lemmas event_defs =
  AdvertisementReceivedEventArgs_init_def AdvertisementType_call_def AdvertisementType_members_def
  raw_event_def Let_def

lemma decode_A:
  "AdvertisementReceivedEventArgs_init ev_A = Inr args_A"
  "bluetooth_address args_A = ''FA:BD:60:D2:11:3A''"
  "local_name (advertisement args_A) = ''Nordic_Blinky''"
  "services (advertisement args_A) = [''0000180a-0000-1000-8000-00805f9b34fb'']"
  by (simp_all add: args_A_def ev_A_def event_defs decoder_defs format_FABD join_FABD)

lemma decode_A_again:
  "AdvertisementReceivedEventArgs_init ev_A_again = Inr args_A_again"
  "bluetooth_address args_A_again = ''FA:BD:60:D2:11:3A''"
  "local_name (advertisement args_A_again) = ''Renamed''"
  "services (advertisement args_A_again) = []"
  by (simp_all add: args_A_again_def ev_A_again_def event_defs decoder_defs format_FABD join_FABD)

lemma decode_B:
  "AdvertisementReceivedEventArgs_init ev_B = Inr args_B"
  "bluetooth_address args_B = ''00:11:22:33:44:55''"
  "local_name (advertisement args_B) = ''Other''"
  "services (advertisement args_B) = [''0000180f-0000-1000-8000-00805f9b34fb'']"
  by (simp_all add: args_B_def ev_B_def event_defs decoder_defs format_0011 join_0011)

text \<open>The callback on an event that is decoded and passes the three filters.\<close>

lemma step_received_passing:
  assumes "AdvertisementReceivedEventArgs_init raw = Inr args"
    and "mac_passes (mac_filter c) (bluetooth_address args)"
    and "name_passes (name_filter c) (local_name (advertisement args))"
    and "services_pass (services_filter c) (name_filter c) (services (advertisement args)) = Inr True"
  shows "step c s (Received raw) =
    (if devices s (bluetooth_address args) = None then
       s\<lparr>devices := (devices s)(bluetooth_address args \<mapsto>
            BLEDevice_init (bluetooth_address args) (Some (local_name (advertisement args))) args),
         new_devices := new_devices s @
            [BLEDevice_init (bluetooth_address args) (Some (local_name (advertisement args))) args]\<rparr>
     else s)"
  using assms
  by (simp add: advertisement_watcher__received_def BLEDevice_init_def Let_def)

lemma no_filters_pass:
  "mac_passes (mac_filter (no_filters t)) a"
  "name_passes (name_filter (no_filters t)) n"
  "services_pass (services_filter (no_filters t)) (name_filter (no_filters t)) us = Inr True"
  by (simp_all add: no_filters_def mac_passes_def name_passes_def services_pass_def)

lemma received_A:
  "step (no_filters t) s (Received ev_A) =
    (if devices s ''FA:BD:60:D2:11:3A'' = None then
       s\<lparr>devices := (devices s)(''FA:BD:60:D2:11:3A'' \<mapsto> dev_A), new_devices := new_devices s @ [dev_A]\<rparr>
     else s)"
  using step_received_passing [OF decode_A(1) no_filters_pass, of t s]
  by (simp add: decode_A dev_A_def)

lemma received_A_again:
  "step (no_filters t) s (Received ev_A_again) =
    (if devices s ''FA:BD:60:D2:11:3A'' = None then
       s\<lparr>devices := (devices s)(''FA:BD:60:D2:11:3A'' \<mapsto>
             BLEDevice_init ''FA:BD:60:D2:11:3A'' (Some ''Renamed'') args_A_again),
         new_devices := new_devices s @
             [BLEDevice_init ''FA:BD:60:D2:11:3A'' (Some ''Renamed'') args_A_again]\<rparr>
     else s)"
  using step_received_passing [OF decode_A_again(1) no_filters_pass, of t s]
  by (simp add: decode_A_again)

lemma received_B:
  "step (no_filters t) s (Received ev_B) =
    (if devices s ''00:11:22:33:44:55'' = None then
       s\<lparr>devices := (devices s)(''00:11:22:33:44:55'' \<mapsto> dev_B), new_devices := new_devices s @ [dev_B]\<rparr>
     else s)"
  using step_received_passing [OF decode_B(1) no_filters_pass, of t s]
  by (simp add: decode_B dev_B_def)

lemma address_dev [simp]:
  "address dev_A = ''FA:BD:60:D2:11:3A''" "address dev_B = ''00:11:22:33:44:55''"
  by (simp_all add: dev_A_def dev_B_def BLEDevice_init_def)

lemma timeout_no_filters [simp]: "timeout (no_filters t) = t"
  by (simp add: no_filters_def)

lemmas trace_defs = find_def run_def find_start_def scan_iteration_def watcher_Stop_def Let_def

subsection \<open>The services filter\<close>

text \<open>
  When every entry of the filter is a string and the name filter is no pattern, the block
  \<open>if services:\<close> decides what the specification says.
\<close>

lemma services_loop_strings:
  assumes "\<forall>e \<in> set l. \<exists>s. e = Str s" and "nm = None \<or> (\<exists>n. nm = Some (Str n))"
  shows "services_loop nm advs l = Inr (services_filter_spec l advs)"
  using assms
  by (induction l) (auto simp: services_filter_spec_def list_ex_iff)

lemma services_pass_strings:
  assumes "\<forall>e \<in> set l. \<exists>s. e = Str s" and "nm = None \<or> (\<exists>n. nm = Some (Str n))"
    and "l \<noteq> []"
  shows "services_pass (Some l) nm advs = Inr (services_filter_spec l advs)"
proof (cases "advs = []")
  case True
  from assms(3) obtain e r where "l = e # r" by (cases l) auto
  with True show ?thesis
    by (simp add: services_pass_def services_filter_spec_def)
next
  case False
  with assms(3) services_loop_strings [OF assms(1,2)] show ?thesis
    by (simp add: services_pass_def)
qed

lemma received_A_pattern_only:
  "step pattern_only_services s (Received ev_A) =
    (if devices s ''FA:BD:60:D2:11:3A'' = None then
       s\<lparr>devices := (devices s)(''FA:BD:60:D2:11:3A'' \<mapsto> dev_A), new_devices := new_devices s @ [dev_A]\<rparr>
     else s)"
proof -
  have "mac_passes (mac_filter pattern_only_services) (bluetooth_address args_A)"
    "name_passes (name_filter pattern_only_services) (local_name (advertisement args_A))"
    "services_pass (services_filter pattern_only_services) (name_filter pattern_only_services)
       (services (advertisement args_A)) = Inr True"
    by (simp_all add: pattern_only_services_def mac_passes_def name_passes_def services_pass_def
        decode_A)
  from step_received_passing [OF decode_A(1) this, of s] show ?thesis
    by (simp add: decode_A dev_A_def)
qed

lemma timeout_pattern_only_services: "timeout pattern_only_services = 5"
  by (simp add: pattern_only_services_def)

text \<open>
  C1 at a filter whose only entry is a pattern that matches nothing. The specification's
  reading rejects the event, since no advertised UUID matches the entry. The code never
  applies the entry: the loop tests \<open>isinstance(name, Pattern)\<close> and \<open>name.match\<close>, the name
  filter, which is \<open>None\<close> here, so the block passes and the device is queued and yielded.
\<close>

theorem pattern_entry_is_not_checked:
  "\<not> services_filter_spec [Pat never] [''0000180a-0000-1000-8000-00805f9b34fb''] \<and>
   services_pass (Some [Pat never]) None [''0000180a-0000-1000-8000-00805f9b34fb''] = Inr True \<and>
   map address (yielded (find pattern_only_services [Platform Started, Received ev_A, Poll 0.01])) =
     [''FA:BD:60:D2:11:3A'']"
proof -
  have "\<not> services_filter_spec [Pat never] [''0000180a-0000-1000-8000-00805f9b34fb'']"
    by (simp add: services_filter_spec_def never_def)
  moreover have "services_pass (Some [Pat never]) None [''0000180a-0000-1000-8000-00805f9b34fb''] = Inr True"
    by (simp add: services_pass_def)
  moreover have "map address (yielded (find pattern_only_services
      [Platform Started, Received ev_A, Poll 0.01])) = [''FA:BD:60:D2:11:3A'']"
    by (simp add: trace_defs received_A_pattern_only timeout_pattern_only_services
        del: step.simps(1))
  ultimately show ?thesis by blast
qed

subsection \<open>The consumer loop\<close>

text \<open>
  C3 at \<open>timeout = -1\<close>. \<open>loop.call_later(-1, stop_scan)\<close> makes \<open>stop_scan\<close> due at once: it
  runs in the first sleep of the loop whether or not a device has been yielded, and the
  loop itself never stops the watcher. With two devices queued before the first pass, both
  are yielded; with none, the watcher is already \<open>Stopping\<close> after the first pass and the
  sequence ends empty.
\<close>

theorem negative_timeout_does_not_stop_at_first_match:
  "map address (yielded (find (no_filters (- 1))
     [Platform Started, Received ev_A, Received ev_B, Poll 0, Poll 0.01, Platform Stopped, Poll 0.02])) =
     [''00:11:22:33:44:55'', ''FA:BD:60:D2:11:3A''] \<and>
   ended (find (no_filters (- 1))
     [Platform Started, Received ev_A, Received ev_B, Poll 0, Poll 0.01, Platform Stopped, Poll 0.02]) =
     Some StopAsyncIteration \<and>
   status (find (no_filters (- 1)) [Platform Started, Poll 0]) = Stopping \<and>
   yielded (find (no_filters (- 1)) [Platform Started, Poll 0, Platform Stopped, Poll 0.01]) = [] \<and>
   ended (find (no_filters (- 1)) [Platform Started, Poll 0, Platform Stopped, Poll 0.01]) =
     Some StopAsyncIteration"
  by (simp add: trace_defs received_A received_B del: step.simps(1))

text \<open>
  C4, as the code has it. When the status of the watcher is \<open>Aborted\<close>, the next pass of the
  loop ends the sequence by returning, as it does for \<open>Stopped\<close>: nothing more is yielded
  and the caller sees the normal end of the sequence, not an error.
\<close>

theorem aborted_ends_the_sequence_normally:
  assumes "status s = Aborted" and "ended s = None"
  shows "ended (step c s (Poll t)) = Some StopAsyncIteration \<and>
         yielded (step c s (Poll t)) = yielded s \<and>
         ended (step c (s\<lparr>status := Stopped\<rparr>) (Poll t)) = ended (step c s (Poll t)) \<and>
         yielded (step c (s\<lparr>status := Stopped\<rparr>) (Poll t)) = yielded (step c s (Poll t))"
  using assms by (simp add: scan_iteration_def)

theorem aborted_ends_the_sequence_normally_witness:
  "status (find (no_filters 5) [Platform Started, Received ev_A, Poll 0.01, Platform Aborted]) = Aborted \<and>
   ended (find (no_filters 5) [Platform Started, Received ev_A, Poll 0.01, Platform Aborted]) = None \<and>
   ended (step (no_filters 5)
     (find (no_filters 5) [Platform Started, Received ev_A, Poll 0.01, Platform Aborted]) (Poll 0.02)) =
     Some StopAsyncIteration \<and>
   yielded (step (no_filters 5)
     (find (no_filters 5) [Platform Started, Received ev_A, Poll 0.01, Platform Aborted]) (Poll 0.02)) =
   yielded (find (no_filters 5) [Platform Started, Received ev_A, Poll 0.01, Platform Aborted])"
proof -
  let ?s = "find (no_filters 5) [Platform Started, Received ev_A, Poll 0.01, Platform Aborted]"
  have a: "status ?s = Aborted"
    by (simp add: trace_defs received_A del: step.simps(1))
  have b: "ended ?s = None"
    by (simp add: trace_defs received_A del: step.simps(1))
  from aborted_ends_the_sequence_normally [OF a b, of "no_filters 5" "0.02"] a b
  show ?thesis by blast
qed

text \<open>
  C4 as stated fails: after \<open>Started\<close>, one yielded device and \<open>Aborted\<close>, the generator ends
  with \<open>StopAsyncIteration\<close>, the very end it has when the watcher is \<open>Stopped\<close> instead, and
  with the same devices yielded.
\<close>

theorem aborted_counterexample:
  "status (find (no_filters 5) [Platform Started, Received ev_A, Poll 0.01, Platform Aborted, Poll 0.02]) = Aborted \<and>
   ended (find (no_filters 5) [Platform Started, Received ev_A, Poll 0.01, Platform Aborted, Poll 0.02]) =
     Some StopAsyncIteration \<and>
   ended (find (no_filters 5) [Platform Started, Received ev_A, Poll 0.01, Platform Stopped, Poll 0.02]) =
     Some StopAsyncIteration \<and>
   map address (yielded (find (no_filters 5) [Platform Started, Received ev_A, Poll 0.01, Platform Aborted, Poll 0.02])) =
   map address (yielded (find (no_filters 5) [Platform Started, Received ev_A, Poll 0.01, Platform Stopped, Poll 0.02]))"
  by (simp add: trace_defs received_A del: step.simps(1))

text \<open>
  C7 at two devices queued between two passes of the loop. \<open>A\<close> matches first and \<open>B\<close>
  second, so \<open>new_devices\<close> is \<open>[A, B]\<close>; \<open>new_devices.pop()\<close> takes the last element, and
  \<open>B\<close> is yielded before \<open>A\<close>.
\<close>

theorem last_queued_device_is_yielded_first:
  "map address (new_devices (find (no_filters 5) [Platform Started, Received ev_A, Received ev_B])) =
     [''FA:BD:60:D2:11:3A'', ''00:11:22:33:44:55''] \<and>
   map address (yielded (find (no_filters 5)
     [Platform Started, Received ev_A, Received ev_B, Poll 0.01, Poll 0.02])) =
     [''00:11:22:33:44:55'', ''FA:BD:60:D2:11:3A'']"
  by (simp add: trace_defs received_A received_B del: step.simps(1))

subsection \<open>One device for each address\<close>

lemma queue_inv_start: "queue_inv find_start"
  by (simp add: queue_inv_def find_start_def)

lemma received_cases:
  assumes "advertisement_watcher__received c s raw = Inr s'"
  shows "s' = s \<or>
         (\<exists>d. devices s (address d) = None \<and>
              s' = s\<lparr>devices := (devices s)(address d \<mapsto> d), new_devices := new_devices s @ [d]\<rparr>)"
  using assms
  by (auto simp: advertisement_watcher__received_def Let_def split: sum.splits if_splits)

lemma queue_inv_received:
  assumes "queue_inv s" "advertisement_watcher__received c s raw = Inr s'"
  shows "queue_inv s'"
proof -
  from received_cases [OF assms(2)]
  consider (same) "s' = s"
    | (new) d where "devices s (address d) = None"
        "s' = s\<lparr>devices := (devices s)(address d \<mapsto> d), new_devices := new_devices s @ [d]\<rparr>"
    by blast
  then show ?thesis
  proof cases
    case same
    with assms(1) show ?thesis by simp
  next
    case new
    let ?old = "yielded s @ new_devices s"
    have known: "\<forall>x \<in> set ?old. devices s (address x) \<noteq> None"
      using assms(1) by (simp add: queue_inv_def)
    have fresh: "address d \<notin> address ` set ?old"
    proof
      assume "address d \<in> address ` set ?old"
      then obtain x where "x \<in> set ?old" "address x = address d" by force
      with known new(1) show False by metis
    qed
    have "distinct (map address ?old)"
      using assms(1) by (simp add: queue_inv_def)
    with fresh have "distinct (map address (?old @ [d]))"
      by auto
    moreover have "\<forall>x \<in> set (?old @ [d]). ((devices s)(address d \<mapsto> d)) (address x) \<noteq> None"
      using known by simp
    ultimately show ?thesis
      by (simp add: queue_inv_def new(2))
  qed
qed

lemma pop_distinct:
  assumes "nd \<noteq> []" "distinct (map f (ys @ nd))"
  shows "distinct (map f ((ys @ [last nd]) @ butlast nd))"
proof -
  obtain b l where nd: "nd = b @ [l]"
    using assms(1) by (cases nd rule: rev_cases) auto
  show ?thesis using assms(2) by (auto simp: nd)
qed

lemma pop_set:
  assumes "nd \<noteq> []"
  shows "set ((ys @ [last nd]) @ butlast nd) = set (ys @ nd)"
proof -
  obtain b l where nd: "nd = b @ [l]"
    using assms(1) by (cases nd rule: rev_cases) auto
  show ?thesis by (auto simp: nd)
qed

lemma queue_inv_scan_iteration:
  assumes "queue_inv s"
  shows "queue_inv (scan_iteration c t s)"
proof (cases "new_devices s = []")
  case True
  with assms show ?thesis
    by (auto simp: queue_inv_def scan_iteration_def Let_def)
next
  case False
  from pop_distinct [OF False, of address "yielded s"] pop_set [OF False, of "yielded s"] assms
  show ?thesis
    by (simp add: queue_inv_def scan_iteration_def Let_def)
qed

lemma queue_inv_step:
  assumes "queue_inv s"
  shows "queue_inv (step c s ev)"
proof (cases ev)
  case (Received raw)
  show ?thesis
  proof (cases "advertisement_watcher__received c s raw")
    case (Inl e)
    with Received assms show ?thesis by (simp add: queue_inv_def)
  next
    case (Inr s')
    with Received queue_inv_received [OF assms Inr] show ?thesis by simp
  qed
next
  case (Platform st)
  with assms show ?thesis by (simp add: queue_inv_def)
next
  case (Poll t)
  have "queue_inv (s\<lparr>stop_scheduled := True\<rparr>)"
    using assms by (simp add: queue_inv_def)
  with Poll assms show ?thesis
    by (simp add: queue_inv_scan_iteration)
qed

lemma queue_inv_run: "queue_inv s \<Longrightarrow> queue_inv (run c s evs)"
  unfolding run_def
  by (induction evs arbitrary: s) (simp_all add: queue_inv_step)

lemma received_seen_address:
  assumes "AdvertisementReceivedEventArgs_init raw = Inr args"
    and "devices s (bluetooth_address args) \<noteq> None"
  shows "devices (step c s (Received raw)) = devices s \<and>
         new_devices (step c s (Received raw)) = new_devices s \<and>
         yielded (step c s (Received raw)) = yielded s"
  using assms
  by (auto simp: advertisement_watcher__received_def BLEDevice_init_def Let_def split: sum.splits)

text \<open>
  When every call of the callback runs to its end before the next one starts, no two
  yielded devices have the same address, whatever the filters and the events; and a call
  on an event whose address is already a key of \<open>devices\<close> leaves \<open>devices\<close>,
  \<open>new_devices\<close> and the yielded devices as they are.
\<close>

lemma calls_in_turn_one_device_per_address:
  "distinct (map address (yielded (find c evs))) \<and>
   (AdvertisementReceivedEventArgs_init raw = Inr args \<and>
    devices s (bluetooth_address args) \<noteq> None \<longrightarrow>
      devices (step c s (Received raw)) = devices s \<and>
      new_devices (step c s (Received raw)) = new_devices s \<and>
      yielded (step c s (Received raw)) = yielded s)"
proof -
  have "queue_inv (find c evs)"
    unfolding find_def by (rule queue_inv_run [OF queue_inv_start])
  then have "distinct (map address (yielded (find c evs)))"
    by (simp add: queue_inv_def)
  then show ?thesis
    using received_seen_address by blast
qed

subsection \<open>Overlapping calls of the callback\<close>

text \<open>The test followed at once by the store is the callback.\<close>

lemma received_is_test_then_store:
  "advertisement_watcher__received c s raw =
    (case received_test c s raw of
       Inl e \<Rightarrow> Inl e
     | Inr None \<Rightarrow> Inr s
     | Inr (Some device) \<Rightarrow> Inr (received_store s device))"
  by (auto simp: advertisement_watcher__received_def received_test_def received_store_def Let_def
      split: sum.splits)

lemma received_test_passing:
  assumes "AdvertisementReceivedEventArgs_init raw = Inr args"
    and "mac_passes (mac_filter c) (bluetooth_address args)"
    and "name_passes (name_filter c) (local_name (advertisement args))"
    and "services_pass (services_filter c) (name_filter c) (services (advertisement args)) = Inr True"
  shows "received_test c s raw =
    Inr (if devices s (bluetooth_address args) = None then
           Some (BLEDevice_init (bluetooth_address args) (Some (local_name (advertisement args))) args)
         else None)"
  using assms
  by (simp add: received_test_def BLEDevice_init_def Let_def)

lemma received_test_A:
  "received_test (no_filters t) s ev_A =
    Inr (if devices s ''FA:BD:60:D2:11:3A'' = None then Some dev_A else None)"
  using received_test_passing [OF decode_A(1) no_filters_pass, of t s]
  by (simp add: decode_A dev_A_def)

lemma received_test_A_again:
  "received_test (no_filters t) s ev_A_again =
    Inr (if devices s ''FA:BD:60:D2:11:3A'' = None then Some dev_A_again else None)"
  using received_test_passing [OF decode_A_again(1) no_filters_pass, of t s]
  by (simp add: decode_A_again dev_A_again_def)

lemma dev_A_again_fields [simp]:
  "address dev_A_again = ''FA:BD:60:D2:11:3A''" "name dev_A_again = Some ''Renamed''"
  "name dev_A = Some ''Nordic_Blinky''"
  by (simp_all add: dev_A_again_def dev_A_def BLEDevice_init_def)

lemmas thread_defs = find_threads_def received_store_def

text \<open>
  C8 at two advertisements of the address \<open>FA:BD:60:D2:11:3A\<close> whose callbacks overlap on
  two worker threads: both calls test \<open>device.address not in devices\<close> before either
  stores. Both devices are appended to \<open>new_devices\<close> and both are yielded, and the second
  store replaces the device that the first one stored in \<open>devices\<close>.
\<close>

theorem overlapping_callbacks_yield_an_address_twice:
  "map address (yielded (find_threads (no_filters 5)
     [Whole (Platform Started), Test 1 ev_A, Test 2 ev_A_again, Store 1, Store 2,
      Whole (Poll 0.01), Whole (Poll 0.02)])) =
     [''FA:BD:60:D2:11:3A'', ''FA:BD:60:D2:11:3A''] \<and>
   map name (yielded (find_threads (no_filters 5)
     [Whole (Platform Started), Test 1 ev_A, Test 2 ev_A_again, Store 1, Store 2,
      Whole (Poll 0.01), Whole (Poll 0.02)])) =
     [Some ''Renamed'', Some ''Nordic_Blinky''] \<and>
   devices (find_threads (no_filters 5)
     [Whole (Platform Started), Test 1 ev_A, Test 2 ev_A_again, Store 1]) ''FA:BD:60:D2:11:3A'' =
     Some dev_A \<and>
   devices (find_threads (no_filters 5)
     [Whole (Platform Started), Test 1 ev_A, Test 2 ev_A_again, Store 1, Store 2]) ''FA:BD:60:D2:11:3A'' =
     Some dev_A_again"
  by (simp add: thread_defs trace_defs received_test_A received_test_A_again)

end
